theory Spec2Isabelle
  imports Main
begin

section \<open>JavaScript values the client handles\<close>

text \<open>
  An \<open>Error\<close> object is identified with its message. A rejected promise or a thrown
  exception is the left summand of a result \<open>js_error + 'a\<close>; a resolved promise or a
  normal return is the right summand.
\<close>

datatype js_error = Error (error_message: string)

text \<open>
  Reading a property of \<open>null\<close> throws a TypeError. The wording of its message is the
  engine's; the one given here is Hermes's.
\<close>

definition null_read :: "string \<Rightarrow> js_error" where
  "null_read p = Error (''Cannot read property '' @ [CHR 0x27] @ p @ [CHR 0x27] @ '' of null'')"

text \<open>
  An optional string field of a JSON object is a \<open>string option\<close>: \<open>None\<close> is
  \<open>undefined\<close> or \<open>null\<close>. JavaScript's truthiness of such a value, and the idiom
  \<open>v || d\<close> with a string default.
\<close>

definition truthy :: "string option \<Rightarrow> bool" where
  "truthy v = (case v of None \<Rightarrow> False | Some s \<Rightarrow> s \<noteq> [])"

definition or_default :: "string option \<Rightarrow> string \<Rightarrow> string" where
  "or_default v d = (case v of None \<Rightarrow> d | Some s \<Rightarrow> if s = [] then d else s)"

text \<open>
  The test \<open>b && v\<close> of a boolean and an optional string: the string when both are
  truthy, nothing otherwise.
\<close>

definition and_then :: "bool \<Rightarrow> string option \<Rightarrow> string option" where
  "and_then b v = (if b \<and> truthy v then v else None)"

text \<open>Decimal rendering of a natural number, as a template literal renders a status code.\<close>

fun decimal :: "nat \<Rightarrow> string" where
  "decimal n =
     (if n < 10 then [char_of (48 + n)]
      else decimal (n div 10) @ [char_of (48 + n mod 10)])"

declare decimal.simps [simp del]

section \<open>The environment: device storage, console, alerts, network\<close>

text \<open>
  AsyncStorage is a library outside the repository. It is modelled as a key-value map
  together with a fault: while the fault is set every operation rejects with it and
  leaves the stored items as they are.
\<close>

record async_storage =
  items :: "string \<rightharpoonup> string"
  fault :: "js_error option"

definition getItem :: "async_storage \<Rightarrow> string \<Rightarrow> js_error + string option" where
  "getItem st k = (case fault st of Some e \<Rightarrow> Inl e | None \<Rightarrow> Inr (items st k))"

definition setItem :: "async_storage \<Rightarrow> string \<Rightarrow> string \<Rightarrow> (js_error + unit) \<times> async_storage" where
  "setItem st k v =
     (case fault st of
        Some e \<Rightarrow> (Inl e, st)
      | None \<Rightarrow> (Inr (), st\<lparr>items := (items st)(k \<mapsto> v)\<rparr>))"

definition removeItem :: "async_storage \<Rightarrow> string \<Rightarrow> (js_error + unit) \<times> async_storage" where
  "removeItem st k =
     (case fault st of
        Some e \<Rightarrow> (Inl e, st)
      | None \<Rightarrow> (Inr (), st\<lparr>items := (items st)(k := None)\<rparr>))"

text \<open>
  The payloads of the requests. \<open>DocumentData\<close> carries, in this order, \<open>major_head\<close>,
  \<open>minor_head\<close>, \<open>document_date\<close>, \<open>document_remarks\<close>, the \<open>tag_name\<close>s of \<open>tags\<close>
  and \<open>user_id\<close>. \<open>SearchCriteria\<close> carries \<open>major_head\<close>, \<open>minor_head\<close>,
  \<open>from_date\<close>, \<open>to_date\<close>, the \<open>tag_name\<close>s of \<open>tags\<close>, \<open>uploaded_by\<close>, \<open>start\<close>,
  \<open>length\<close>, \<open>filterId\<close> and \<open>search.value\<close>. A \<open>Date\<close> is its time value in
  milliseconds; the serialisation of the payloads (\<open>JSON.stringify\<close>, the ISO date
  text) is not modelled, a request holds the structured payload. The field
  \<open>http_method\<close> of a request is the \<open>method\<close> option given to \<open>fetch\<close>.
\<close>

type_synonym js_date = int

record picked_file =
  uri :: string
  name :: string
  type :: string

datatype document_data =
  DocumentData string string js_date string "string list" string

datatype search_criteria =
  SearchCriteria string string string string "string list" string nat nat string string

datatype request_body =
    FormData picked_file document_data
  | TermBody string
  | CriteriaBody search_criteria
  | GenerateOtpBody string
  | ValidateOtpBody string string

record request =
  url :: string
  http_method :: string
  headers :: "(string \<times> string) list"
  body :: request_body

text \<open>
  What a response body decodes to: the fields the client reads from it. \<open>success\<close> is
  the truthiness of the field (an absent field is \<open>False\<close>); \<open>message\<close> and \<open>token\<close>
  are optional strings; \<open>data\<close> is the payload, if any. A body decodes to such a
  value or to the JSON value \<open>null\<close>, whose properties cannot be read.
\<close>

record 'd api_body =
  success :: bool
  message :: "string option"
  token :: "string option"
  data :: "'d option"

datatype 'd decoded = JsonNull | JsonBody "'d api_body"

text \<open>
  A fetch \<open>Response\<close>: the status code and what \<open>response.json()\<close> settles to (a
  rejection when the body is not JSON). \<open>response.ok\<close> is the Fetch standard's: the
  status is in the range 200 to 299.
\<close>

record 'd response =
  status :: nat
  json :: "js_error + 'd decoded"

definition ok :: "'d response \<Rightarrow> bool" where
  "ok r = (200 \<le> status r \<and> status r \<le> 299)"

text \<open>
  The network is a function from the request to what \<open>fetch\<close> settles to. Every
  observable effect is appended to a trace, in program order.
\<close>

type_synonym 'd network = "request \<Rightarrow> js_error + 'd response"

datatype effect =
    ConsoleError string js_error
  | Alert string string
  | Fetch request

record world =
  storage :: async_storage
  trace :: "effect list"

definition emit :: "effect \<Rightarrow> world \<Rightarrow> world" where
  "emit e w = w\<lparr>trace := trace w @ [e]\<rparr>"

fun requests :: "effect list \<Rightarrow> request list" where
  "requests [] = []"
| "requests (Fetch r # es) = r # requests es"
| "requests (_ # es) = requests es"

fun alerts :: "effect list \<Rightarrow> (string \<times> string) list" where
  "alerts [] = []"
| "alerts (Alert t m # es) = (t, m) # alerts es"
| "alerts (_ # es) = alerts es"

section \<open>context/AuthContext.js: the session state holder\<close>

record auth_state =
  userToken :: "string option"
  isLoading :: bool

definition initial_auth :: auth_state where
  "initial_auth = \<lparr>userToken = None, isLoading = True\<rparr>"

text \<open>
  \<open>loadToken\<close>, the effect run once on mount. \<open>getItem\<close> is issued at mount;
  \<open>loadToken_settled\<close> is the rest of the function, run when the read has settled with
  \<open>got\<close>. \<open>loadToken\<close> is the two together, for a mount during which nothing else
  happens. The functions return what their promise settles to, the new state of the
  provider and the new world.
\<close>

definition loadToken_settled ::
  "js_error + string option \<Rightarrow> auth_state \<Rightarrow> world \<Rightarrow> (js_error + unit) \<times> auth_state \<times> world" where
  "loadToken_settled got a w =
     (case got of
        Inr tok \<Rightarrow> (Inr (), a\<lparr>userToken := tok, isLoading := False\<rparr>, w)
      | Inl e \<Rightarrow>
          (Inr (), a\<lparr>isLoading := False\<rparr>,
           emit (ConsoleError ''Failed to load token from AsyncStorage:'' e) w))"

definition loadToken :: "auth_state \<Rightarrow> world \<Rightarrow> (js_error + unit) \<times> auth_state \<times> world" where
  "loadToken a w = loadToken_settled (getItem (storage w) ''userToken'') a w"

definition signIn :: "string \<Rightarrow> auth_state \<Rightarrow> world \<Rightarrow> (js_error + unit) \<times> auth_state \<times> world" where
  "signIn tok a w =
     (case setItem (storage w) ''userToken'' tok of
        (Inr _, st) \<Rightarrow> (Inr (), a\<lparr>userToken := Some tok\<rparr>, w\<lparr>storage := st\<rparr>)
      | (Inl e, st) \<Rightarrow>
          (Inr (), a,
           emit (ConsoleError ''Failed to save token to AsyncStorage:'' e) (w\<lparr>storage := st\<rparr>)))"

definition signOut :: "auth_state \<Rightarrow> world \<Rightarrow> (js_error + unit) \<times> auth_state \<times> world" where
  "signOut a w =
     (case removeItem (storage w) ''userToken'' of
        (Inr _, st) \<Rightarrow> (Inr (), a\<lparr>userToken := None\<rparr>, w\<lparr>storage := st\<rparr>)
      | (Inl e, st) \<Rightarrow>
          (Inr (), a,
           emit (ConsoleError ''Failed to remove token from AsyncStorage:'' e) (w\<lparr>storage := st\<rparr>)))"

section \<open>App.js: the navigation shell\<close>

datatype screen = Home | Upload | Search | Preview | Login

datatype view = ActivityIndicator | StackNavigator "screen list"

definition AppContent :: "auth_state \<Rightarrow> view" where
  "AppContent a =
     (if isLoading a then ActivityIndicator
      else if truthy (userToken a) then StackNavigator [Home, Upload, Search, Preview]
      else StackNavigator [Login])"

text \<open>The three states of the shell, as what it renders.\<close>

definition Loading :: view where
  "Loading = ActivityIndicator"

definition Authenticated :: view where
  "Authenticated = StackNavigator [Home, Upload, Search, Preview]"

definition Unauthenticated :: view where
  "Unauthenticated = StackNavigator [Login]"

text \<open>
  The life of a mounted provider: the read issued at mount and not yet settled (if
  any), the state, the world. Its events are the initial load resolving, a sign-in and a
  sign-out. The load resolves with what the read at mount found, and once only.
\<close>

type_synonym provider = "(js_error + string option) option \<times> auth_state \<times> world"

definition mount :: "world \<Rightarrow> provider" where
  "mount w = (Some (getItem (storage w) ''userToken''), initial_auth, w)"

datatype auth_event = LoadResolved | SignIn string | SignOut

fun auth_step :: "auth_event \<Rightarrow> provider \<Rightarrow> provider" where
  "auth_step LoadResolved (Some got, a, w) = (None, snd (loadToken_settled got a w))"
| "auth_step LoadResolved (None, a, w) = (None, a, w)"
| "auth_step (SignIn tok) (p, a, w) = (p, snd (signIn tok a w))"
| "auth_step SignOut (p, a, w) = (p, snd (signOut a w))"

fun auth_run :: "auth_event list \<Rightarrow> provider \<Rightarrow> provider" where
  "auth_run [] c = c"
| "auth_run (ev # evs) c = auth_run evs (auth_step ev c)"

section \<open>services/DocumentService.js: the document API client\<close>

definition API_BASE_URL :: string where
  "API_BASE_URL = ''https://apis.allsoft.co/api/documentManagement''"

definition getUserToken :: "world \<Rightarrow> js_error + string" where
  "getUserToken w =
     (case getItem (storage w) ''userToken'' of
        Inl e \<Rightarrow> Inl e
      | Inr None \<Rightarrow> Inl (Error ''Authentication token not found. Please log in again.'')
      | Inr (Some tok) \<Rightarrow>
          if tok = []
          then Inl (Error ''Authentication token not found. Please log in again.'')
          else Inr tok)"

text \<open>
  The lines after \<open>fetch\<close>, the same text in the three calls: decode the body, then
  test \<open>response.ok\<close>; when it is false, read \<open>data.message\<close> and throw.
\<close>

definition read_response :: "'d response \<Rightarrow> js_error + 'd decoded" where
  "read_response r =
     (case json r of
        Inl e \<Rightarrow> Inl e
      | Inr d \<Rightarrow>
          if \<not> ok r
          then (case d of
                  JsonNull \<Rightarrow> Inl (null_read ''message'')
                | JsonBody b \<Rightarrow>
                    Inl (Error (or_default (message b)
                      (''API error: '' @ decimal (status r)))))
          else Inr d)"

definition upload_request :: "string \<Rightarrow> string \<Rightarrow> string \<Rightarrow> string \<Rightarrow> document_data \<Rightarrow> request" where
  "upload_request tok fileUri fileName fileType dd =
     \<lparr>url = API_BASE_URL @ ''/saveDocumentEntry'', http_method = ''POST'',
      headers = [(''token'', tok)],
      body = FormData \<lparr>uri = fileUri, name = fileName, type = fileType\<rparr> dd\<rparr>"

definition tags_request :: "string \<Rightarrow> string \<Rightarrow> request" where
  "tags_request tok term =
     \<lparr>url = API_BASE_URL @ ''/documentTags'', http_method = ''POST'',
      headers = [(''token'', tok), (''Content-Type'', ''application/json'')],
      body = TermBody term\<rparr>"

definition search_request :: "string \<Rightarrow> search_criteria \<Rightarrow> request" where
  "search_request tok searchCriteria =
     \<lparr>url = API_BASE_URL @ ''/searchDocumentEntry'', http_method = ''POST'',
      headers = [(''token'', tok), (''Content-Type'', ''application/json'')],
      body = CriteriaBody searchCriteria\<rparr>"

text \<open>
  Each call is one guarded block whose \<open>catch\<close> logs the error and throws it again.
\<close>

definition uploadDocument ::
  "'d network \<Rightarrow> string \<Rightarrow> string \<Rightarrow> string \<Rightarrow> document_data \<Rightarrow> world
     \<Rightarrow> (js_error + 'd decoded) \<times> world" where
  "uploadDocument net fileUri fileName fileType dd w =
     (case
        (case getUserToken w of
           Inl e \<Rightarrow> (Inl e, w)
         | Inr tok \<Rightarrow>
             (let req = upload_request tok fileUri fileName fileType dd;
                  w1 = emit (Fetch req) w
              in case net req of
                   Inl e \<Rightarrow> (Inl e, w1)
                 | Inr r \<Rightarrow> (read_response r, w1)))
      of
        (Inl error, w') \<Rightarrow> (Inl error, emit (ConsoleError ''Error uploading document:'' error) w')
      | (Inr d, w') \<Rightarrow> (Inr d, w'))"

definition fetchDocumentTags ::
  "'d network \<Rightarrow> string \<Rightarrow> world \<Rightarrow> (js_error + 'd decoded) \<times> world" where
  "fetchDocumentTags net term w =
     (case
        (case getUserToken w of
           Inl e \<Rightarrow> (Inl e, w)
         | Inr tok \<Rightarrow>
             (let req = tags_request tok term;
                  w1 = emit (Fetch req) w
              in case net req of
                   Inl e \<Rightarrow> (Inl e, w1)
                 | Inr r \<Rightarrow> (read_response r, w1)))
      of
        (Inl error, w') \<Rightarrow> (Inl error, emit (ConsoleError ''Error fetching document tags:'' error) w')
      | (Inr d, w') \<Rightarrow> (Inr d, w'))"

definition searchDocuments ::
  "'d network \<Rightarrow> search_criteria \<Rightarrow> world \<Rightarrow> (js_error + 'd decoded) \<times> world" where
  "searchDocuments net searchCriteria w =
     (case
        (case getUserToken w of
           Inl e \<Rightarrow> (Inl e, w)
         | Inr tok \<Rightarrow>
             (let req = search_request tok searchCriteria;
                  w1 = emit (Fetch req) w
              in case net req of
                   Inl e \<Rightarrow> (Inl e, w1)
                 | Inr r \<Rightarrow> (read_response r, w1)))
      of
        (Inl error, w') \<Rightarrow> (Inl error, emit (ConsoleError ''Error searching documents:'' error) w')
      | (Inr d, w') \<Rightarrow> (Inr d, w'))"

section \<open>services/AuthService.js and screens/LoginScreen.js\<close>

definition validateOTP ::
  "'d network \<Rightarrow> string \<Rightarrow> string \<Rightarrow> world \<Rightarrow> (js_error + 'd decoded) \<times> world" where
  "validateOTP net mobileNumber otp w =
     (let req = \<lparr>url = API_BASE_URL @ ''/validateOTP'', http_method = ''POST'',
                 headers = [(''Content-Type'', ''application/json'')],
                 body = ValidateOtpBody mobileNumber otp\<rparr>;
          w1 = emit (Fetch req) w
      in case (case net req of Inl e \<Rightarrow> Inl e | Inr r \<Rightarrow> json r) of
           Inl error \<Rightarrow>
             (Inl (Error ''Network error or failed to validate OTP. Please try again.''),
              emit (ConsoleError ''Error validating OTP:'' error) w1)
         | Inr d \<Rightarrow> (Inr d, w1))"

record screen_state =
  loading :: bool

record login_state = screen_state +
  mobileNumber :: string
  otp :: string
  otpSent :: bool

text \<open>
  \<open>handleValidateOtp\<close>: the state of the screen, of the provider and of the world after
  the handler has run to its end. The inner case is the guarded block, the outer one
  its \<open>catch\<close> and \<open>finally\<close>.
\<close>

definition handleValidateOtp ::
  "'d network \<Rightarrow> login_state \<Rightarrow> auth_state \<Rightarrow> world \<Rightarrow> login_state \<times> auth_state \<times> world" where
  "handleValidateOtp net s a w =
     (if mobileNumber s = [] \<or> otp s = []
      then (s, a, emit (Alert ''Input Error'' ''Please enter both mobile number and OTP.'') w)
      else
        (case
           (case validateOTP net (mobileNumber s) (otp s) w of
              (Inl e, w1) \<Rightarrow> (Inl e, a, w1)
            | (Inr JsonNull, w1) \<Rightarrow> (Inl (null_read ''success''), a, w1)
            | (Inr (JsonBody response), w1) \<Rightarrow>
                (case and_then (success response) (token response) of
                   Some tok \<Rightarrow>
                     (case signIn tok a w1 of
                        (Inl e, a', w2) \<Rightarrow> (Inl e, a', w2)
                      | (Inr u, a', w2) \<Rightarrow>
                          (Inr u, a', emit (Alert ''Success'' ''Login successful!'') w2))
                 | None \<Rightarrow>
                     (Inr (), a,
                      emit (Alert ''Error''
                        (or_default (message response) ''Invalid OTP. Please try again.'')) w1)))
         of
           (Inl error, a', w') \<Rightarrow>
             (s\<lparr>loading := False\<rparr>, a',
              emit (Alert ''Error''
                (or_default (Some (error_message error))
                   ''Something went wrong. Please try again.'')) w')
         | (Inr u, a', w') \<Rightarrow> (s\<lparr>loading := False\<rparr>, a', w')))"

section \<open>screens/UploadScreen.js and screens/SearchScreen.js\<close>

text \<open>
  The two screens hold the same category and tag fields, and the same text for
  \<open>handleAddTag\<close>, \<open>handleRemoveTag\<close> and the suggested-tag chips.
\<close>

record tag_form_state = screen_state +
  majorHead :: string
  minorHead :: string
  tags :: "string list"
  newTag :: string
  availableTags :: "string list"

record upload_state = tag_form_state +
  documentDate :: js_date
  showDatePicker :: bool
  remarks :: string
  selectedFile :: "picked_file option"

record search_state = tag_form_state +
  fromDate :: "js_date option"
  toDate :: "js_date option"
  showFromDatePicker :: bool
  showToDatePicker :: bool
  searchResults :: "document_data list"

text \<open>
  \<open>String.prototype.trim\<close>. A string is the list of the bytes of its UTF-8 text (a
  string with an unpaired surrogate has no such text and is outside the model), so a
  white-space character is a sequence of one to three bytes. \<open>white_space\<close> lists the
  characters that \<open>trim\<close> removes: tab, line feed, vertical tab, form feed, carriage
  return, space, U+00A0, U+1680, U+2000 to U+200A, U+2028, U+2029, U+202F, U+205F,
  U+3000 and U+FEFF.
\<close>

definition white_space :: "string list" where
  "white_space =
     [[CHR 0x09], [CHR 0x0A], [CHR 0x0B], [CHR 0x0C], [CHR 0x0D], [CHR 0x20],
      [CHR 0xC2, CHR 0xA0],
      [CHR 0xE1, CHR 0x9A, CHR 0x80],
      [CHR 0xE2, CHR 0x80, CHR 0x80], [CHR 0xE2, CHR 0x80, CHR 0x81],
      [CHR 0xE2, CHR 0x80, CHR 0x82], [CHR 0xE2, CHR 0x80, CHR 0x83],
      [CHR 0xE2, CHR 0x80, CHR 0x84], [CHR 0xE2, CHR 0x80, CHR 0x85],
      [CHR 0xE2, CHR 0x80, CHR 0x86], [CHR 0xE2, CHR 0x80, CHR 0x87],
      [CHR 0xE2, CHR 0x80, CHR 0x88], [CHR 0xE2, CHR 0x80, CHR 0x89],
      [CHR 0xE2, CHR 0x80, CHR 0x8A],
      [CHR 0xE2, CHR 0x80, CHR 0xA8], [CHR 0xE2, CHR 0x80, CHR 0xA9],
      [CHR 0xE2, CHR 0x80, CHR 0xAF],
      [CHR 0xE2, CHR 0x81, CHR 0x9F],
      [CHR 0xE3, CHR 0x80, CHR 0x80],
      [CHR 0xEF, CHR 0xBB, CHR 0xBF]]"

definition starts_with :: "string \<Rightarrow> string \<Rightarrow> bool" where
  "starts_with p s = (p \<noteq> [] \<and> take (length p) s = p)"

text \<open>\<open>strip ps s\<close> removes from the front of \<open>s\<close> every run of sequences of \<open>ps\<close>.\<close>

function strip :: "string list \<Rightarrow> string \<Rightarrow> string" where
  "strip ps s =
     (case List.find (\<lambda>p. starts_with p s) ps of
        None \<Rightarrow> s
      | Some p \<Rightarrow> strip ps (drop (length p) s))"
  by pat_completeness auto
termination
proof (relation "measure (\<lambda>(ps, s). length s)")
  show "wf (measure (\<lambda>(ps, s). length s))" by simp
next
  fix ps :: "string list" and s p :: string
  assume "List.find (\<lambda>p. starts_with p s) ps = Some p"
  then have "starts_with p s"
    by (auto simp: find_Some_iff)
  then have p: "p \<noteq> []" and t: "take (length p) s = p"
    by (simp_all add: starts_with_def)
  have "length (take (length p) s) = length p"
    using t by simp
  then have "length p \<le> length s"
    by simp
  then have "length (drop (length p) s) < length s"
    using p by (cases p) auto
  then show "((ps, drop (length p) s), (ps, s)) \<in> measure (\<lambda>(ps, s). length s)"
    by simp
qed

declare strip.simps [simp del]

definition trimStart :: "string \<Rightarrow> string" where
  "trimStart s = strip white_space s"

definition trimEnd :: "string \<Rightarrow> string" where
  "trimEnd s = rev (strip (map rev white_space) (rev s))"

definition trim :: "string \<Rightarrow> string" where
  "trim s = trimEnd (trimStart s)"

definition handleAddTag :: "'a tag_form_state_scheme \<Rightarrow> 'a tag_form_state_scheme" where
  "handleAddTag s =
     (let trimmedTag = trim (newTag s)
      in if trimmedTag \<noteq> [] \<and> trimmedTag \<notin> set (tags s)
         then s\<lparr>tags := tags s @ [trimmedTag], newTag := []\<rparr>
         else s)"

definition handleRemoveTag :: "string \<Rightarrow> 'a tag_form_state_scheme \<Rightarrow> 'a tag_form_state_scheme" where
  "handleRemoveTag tagToRemove s = s\<lparr>tags := filter (\<lambda>tag. tag \<noteq> tagToRemove) (tags s)\<rparr>"

text \<open>The \<open>onPress\<close> of a suggested-tag chip.\<close>

definition pressSuggestedTag :: "string \<Rightarrow> 'a tag_form_state_scheme \<Rightarrow> 'a tag_form_state_scheme" where
  "pressSuggestedTag tag s = (if tag \<notin> set (tags s) then s\<lparr>tags := tags s @ [tag]\<rparr> else s)"

text \<open>
  The \<open>onValueChange\<close> of the major-head picker: on the upload screen an arrow function
  that sets both heads, on the search screen \<open>setMajorHead\<close> itself.
\<close>

definition upload_onMajorHeadChange :: "string \<Rightarrow> upload_state \<Rightarrow> upload_state" where
  "upload_onMajorHeadChange itemValue s = s\<lparr>majorHead := itemValue, minorHead := []\<rparr>"

definition search_onMajorHeadChange :: "string \<Rightarrow> search_state \<Rightarrow> search_state" where
  "search_onMajorHeadChange itemValue s = s\<lparr>majorHead := itemValue\<rparr>"

text \<open>
  \<open>handleSubmit\<close> of the upload screen. \<open>now\<close> is what \<open>new Date()\<close> gives when the form
  is reset. The inner case is the guarded block, the outer one its \<open>catch\<close> and
  \<open>finally\<close>.
\<close>

definition documentData :: "upload_state \<Rightarrow> document_data" where
  "documentData s =
     DocumentData (majorHead s) (minorHead s) (documentDate s) (remarks s) (tags s)
       ''example_user_id''"

definition handleSubmit ::
  "'d network \<Rightarrow> js_date \<Rightarrow> upload_state \<Rightarrow> world \<Rightarrow> upload_state \<times> world" where
  "handleSubmit net now s w =
     (case selectedFile s of
        None \<Rightarrow> (s, emit (Alert ''Validation Error'' ''Please select a file to upload.'') w)
      | Some file \<Rightarrow>
          if majorHead s = [] \<or> minorHead s = []
          then (s, emit (Alert ''Validation Error''
                  ''Please select both Major Head and Minor Head.'') w)
          else if tags s = []
          then (s, emit (Alert ''Validation Error'' ''Please add at least one tag.'') w)
          else
            (case
               (case uploadDocument net (uri file) (name file) (type file) (documentData s) w of
                  (Inl e, w1) \<Rightarrow> (Inl e, w1)
                | (Inr JsonNull, w1) \<Rightarrow> (Inl (null_read ''success''), w1)
                | (Inr (JsonBody response), w1) \<Rightarrow>
                    if success response
                    then
                      (Inr (s\<lparr>documentDate := now, majorHead := [], minorHead := [],
                              remarks := [], tags := [], newTag := [],
                              selectedFile := None\<rparr>),
                       emit (Alert ''Success'' ''Document uploaded successfully!'') w1)
                    else
                      (Inr s,
                       emit (Alert ''Upload Error''
                         (or_default (message response) ''Failed to upload document.'')) w1))
             of
               (Inl error, w') \<Rightarrow>
                 (s\<lparr>loading := False\<rparr>,
                  emit (Alert ''Upload Failed''
                    (or_default (Some (error_message error))
                       ''An unexpected error occurred during upload.'')) w')
             | (Inr s', w') \<Rightarrow> (s'\<lparr>loading := False\<rparr>, w')))"

text \<open>The six fields of the upload form.\<close>

definition form_fields ::
  "upload_state \<Rightarrow> js_date \<times> string \<times> string \<times> string \<times> string list \<times> picked_file option" where
  "form_fields s =
     (documentDate s, majorHead s, minorHead s, remarks s, tags s, selectedFile s)"

section \<open>The app as a whole: what reaches the store\<close>

text \<open>
  The actions that write the store or the provider's state: the login screen's
  \<open>handleValidateOtp\<close> (the only caller of \<open>signIn\<close>), the home screen's sign-out
  button (the only caller of \<open>signOut\<close>), a restart of the app (a new provider is
  mounted and loads), and the storage starting or ceasing to fail.
\<close>

datatype 'd app_action =
    SubmitOtp "'d network" login_state
  | PressSignOut
  | Restart
  | StorageFault "js_error option"

fun app_step :: "'d app_action \<Rightarrow> auth_state \<times> world \<Rightarrow> auth_state \<times> world" where
  "app_step (SubmitOtp net s) (a, w) = snd (handleValidateOtp net s a w)"
| "app_step PressSignOut (a, w) = snd (signOut a w)"
| "app_step Restart (a, w) = snd (loadToken initial_auth w)"
| "app_step (StorageFault f) (a, w) = (a, w\<lparr>storage := (storage w)\<lparr>fault := f\<rparr>\<rparr>)"

fun app_run :: "'d app_action list \<Rightarrow> auth_state \<times> world \<Rightarrow> auth_state \<times> world" where
  "app_run [] c = c"
| "app_run (act # acts) c = app_run acts (app_step act c)"

text \<open>
  The stores the app itself can produce never hold the empty string as the token:
  \<open>no_empty_token\<close> is that property of a world.
\<close>

definition no_empty_token :: "world \<Rightarrow> bool" where
  "no_empty_token w = (items (storage w) ''userToken'' \<noteq> Some [])"

section \<open>Projections and concrete inputs\<close>

text \<open>The provider's state and the world in a result of \<open>loadToken\<close>, \<open>signIn\<close>,
  \<open>signOut\<close> or \<open>handleValidateOtp\<close>, and in a mounted provider.\<close>

definition auth_of :: "'r \<times> auth_state \<times> world \<Rightarrow> auth_state" where
  "auth_of r = fst (snd r)"

definition world_of :: "'r \<times> auth_state \<times> world \<Rightarrow> world" where
  "world_of r = snd (snd r)"

definition nothing_stored :: world where
  "nothing_stored = \<lparr>storage = \<lparr>items = Map.empty, fault = None\<rparr>, trace = []\<rparr>"

definition stored_abc :: world where
  "stored_abc = \<lparr>storage = \<lparr>items = [''userToken'' \<mapsto> ''abc''], fault = None\<rparr>, trace = []\<rparr>"

definition storage_broken :: world where
  "storage_broken =
     \<lparr>storage = \<lparr>items = [''userToken'' \<mapsto> ''abc''], fault = Some (Error ''disk failure'')\<rparr>,
      trace = []\<rparr>"

definition signed_out :: auth_state where
  "signed_out = \<lparr>userToken = None, isLoading = False\<rparr>"

definition signed_in_abc :: auth_state where
  "signed_in_abc = \<lparr>userToken = Some ''abc'', isLoading = False\<rparr>"

definition sample_file :: picked_file where
  "sample_file = \<lparr>uri = ''file:///scan.pdf'', name = ''scan.pdf'', type = ''application/pdf''\<rparr>"

definition sample_form :: upload_state where
  "sample_form =
     \<lparr>loading = False, majorHead = ''Personal'', minorHead = ''Tom'', tags = [''invoice''],
      newTag = '' invoice '', availableTags = [''invoice'', ''2024''], documentDate = 0,
      showDatePicker = False, remarks = ''paid'', selectedFile = Some sample_file\<rparr>"

definition search_personal_tom :: search_state where
  "search_personal_tom =
     \<lparr>loading = False, majorHead = ''Personal'', minorHead = ''Tom'', tags = [''invoice''],
      newTag = ''invoice'', availableTags = [''invoice''], fromDate = None, toDate = None,
      showFromDatePicker = False, showToDatePicker = False, searchResults = []\<rparr>"

definition sample_criteria :: search_criteria where
  "sample_criteria = SearchCriteria ''Personal'' ''Tom'' [] [] [''invoice''] [] 0 10 [] []"

definition sample_login :: login_state where
  "sample_login =
     \<lparr>loading = False, mobileNumber = ''9999999999'', otp = ''123456'', otpSent = True\<rparr>"

text \<open>Responses, and networks that answer every request with one of them.\<close>

definition bad_gateway :: "unit response" where
  "bad_gateway = \<lparr>status = 502, json = Inl (Error ''JSON Parse error'')\<rparr>"

definition bad_gateway_net :: "unit network" where
  "bad_gateway_net req = Inr bad_gateway"

definition null_error :: "unit response" where
  "null_error = \<lparr>status = 500, json = Inr JsonNull\<rparr>"

definition null_error_net :: "unit network" where
  "null_error_net req = Inr null_error"

definition rejected_body :: "unit api_body" where
  "rejected_body =
     \<lparr>success = False, message = Some ''Duplicate document'', token = None, data = None\<rparr>"

definition rejected_net :: "unit network" where
  "rejected_net req = Inr \<lparr>status = 200, json = Inr (JsonBody rejected_body)\<rparr>"

definition unmessaged_body :: "unit api_body" where
  "unmessaged_body = \<lparr>success = False, message = None, token = None, data = None\<rparr>"

definition server_error :: "unit response" where
  "server_error = \<lparr>status = 500, json = Inr (JsonBody unmessaged_body)\<rparr>"

definition server_error_net :: "unit network" where
  "server_error_net req = Inr server_error"

definition empty_message_body :: "unit api_body" where
  "empty_message_body = \<lparr>success = False, message = Some [], token = None, data = None\<rparr>"

definition empty_message_net :: "unit network" where
  "empty_message_net req = Inr \<lparr>status = 200, json = Inr (JsonBody empty_message_body)\<rparr>"

definition accepted_body :: "unit api_body" where
  "accepted_body = \<lparr>success = True, message = None, token = None, data = None\<rparr>"

definition accepted_net :: "unit network" where
  "accepted_net req = Inr \<lparr>status = 200, json = Inr (JsonBody accepted_body)\<rparr>"

definition token_body :: "unit api_body" where
  "token_body = \<lparr>success = True, message = None, token = Some ''abc'', data = None\<rparr>"

definition token_net :: "unit network" where
  "token_net req = Inr \<lparr>status = 200, json = Inr (JsonBody token_body)\<rparr>"

section \<open>Lemmas about the trace, the shared steps and the store\<close>

lemma requests_append: "requests (xs @ ys) = requests xs @ requests ys"
  by (induction xs rule: requests.induct) simp_all

lemma alerts_append: "alerts (xs @ ys) = alerts xs @ alerts ys"
  by (induction xs rule: alerts.induct) simp_all

lemma getUserToken_missing:
  "getItem (storage w) ''userToken'' = Inr None \<Longrightarrow>
   getUserToken w = Inl (Error ''Authentication token not found. Please log in again.'')"
  by (simp add: getUserToken_def)

lemma getUserToken_stored_abc: "getUserToken stored_abc = Inr ''abc''"
  by (simp add: getUserToken_def getItem_def stored_abc_def)

lemma uploadDocument_sent:
  "getUserToken w = Inr tok \<Longrightarrow>
   net (upload_request tok fileUri fileName fileType dd) = Inr r \<Longrightarrow>
   uploadDocument net fileUri fileName fileType dd w =
     (case read_response r of
        Inl e \<Rightarrow>
          (Inl e, emit (ConsoleError ''Error uploading document:'' e)
                    (emit (Fetch (upload_request tok fileUri fileName fileType dd)) w))
      | Inr d \<Rightarrow> (Inr d, emit (Fetch (upload_request tok fileUri fileName fileType dd)) w))"
  by (simp add: uploadDocument_def Let_def split: sum.split)

lemma uploadDocument_alerts:
  "alerts (trace (snd (uploadDocument net fileUri fileName fileType dd w))) = alerts (trace w)"
  by (simp add: uploadDocument_def Let_def emit_def alerts_append split: sum.split prod.split)

lemma validateOTP_world:
  "storage (snd (validateOTP net m c w)) = storage w
   \<and> alerts (trace (snd (validateOTP net m c w))) = alerts (trace w)"
  by (simp add: validateOTP_def Let_def emit_def alerts_append split: sum.split)

lemma AppContent_Loading: "AppContent a = Loading \<longleftrightarrow> isLoading a"
  by (simp add: AppContent_def Loading_def)

lemma auth_step_loading:
  assumes "isLoading a \<longleftrightarrow> p \<noteq> None"
  shows "(isLoading (fst (snd (auth_step ev (p, a, w)))) \<longleftrightarrow> fst (auth_step ev (p, a, w)) \<noteq> None)
       \<and> (fst (auth_step ev (p, a, w)) \<noteq> None \<longleftrightarrow> p \<noteq> None \<and> ev \<noteq> LoadResolved)"
proof (cases ev)
  case LoadResolved
  then show ?thesis
    using assms
    by (cases p) (simp_all add: loadToken_settled_def split: sum.split)
next
  case (SignIn tok)
  then show ?thesis
    using assms by (simp add: signIn_def split: sum.split prod.split)
next
  case SignOut
  then show ?thesis
    using assms by (simp add: signOut_def split: sum.split prod.split)
qed

lemma auth_run_loading:
  "(isLoading a \<longleftrightarrow> p \<noteq> None) \<Longrightarrow>
   isLoading (fst (snd (auth_run evs (p, a, w)))) \<longleftrightarrow> p \<noteq> None \<and> LoadResolved \<notin> set evs"
proof (induction evs arbitrary: p a w)
  case Nil
  then show ?case by simp
next
  case (Cons ev evs)
  obtain p' a' w' where s: "auth_step ev (p, a, w) = (p', a', w')"
    by (cases "auth_step ev (p, a, w)")
  have "(isLoading a' \<longleftrightarrow> p' \<noteq> None) \<and> (p' \<noteq> None \<longleftrightarrow> p \<noteq> None \<and> ev \<noteq> LoadResolved)"
    using auth_step_loading [OF Cons.prems, of ev w] by (simp add: s)
  then show ?case
    using Cons.IH [of a' p' w'] by (auto simp: s)
qed

lemma and_then_Some: "and_then b v = Some tok \<Longrightarrow> tok \<noteq> []"
  by (auto simp: and_then_def truthy_def split: if_splits)

lemma signIn_keeps_no_empty_token:
  "no_empty_token w \<Longrightarrow> tok \<noteq> [] \<Longrightarrow> no_empty_token (snd (snd (signIn tok a w)))"
  by (simp add: no_empty_token_def signIn_def setItem_def emit_def split: option.split)

lemma signOut_keeps_no_empty_token:
  "no_empty_token w \<Longrightarrow> no_empty_token (snd (snd (signOut a w)))"
  by (simp add: no_empty_token_def signOut_def removeItem_def emit_def split: option.split)

lemma loadToken_keeps_storage: "storage (snd (snd (loadToken a w))) = storage w"
  by (simp add: loadToken_def loadToken_settled_def emit_def split: sum.split)

lemma handleValidateOtp_keeps_no_empty_token:
  assumes "no_empty_token w"
  shows "no_empty_token (snd (snd (handleValidateOtp net s a w)))"
proof (cases "mobileNumber s = [] \<or> otp s = []")
  case True
  then show ?thesis
    using assms by (auto simp: handleValidateOtp_def no_empty_token_def emit_def)
next
  case False
  obtain res w1 where v: "validateOTP net (mobileNumber s) (otp s) w = (res, w1)"
    by (cases "validateOTP net (mobileNumber s) (otp s) w")
  have "storage w1 = storage w"
    using validateOTP_world [of net "mobileNumber s" "otp s" w] by (simp add: v)
  then have w1: "no_empty_token w1"
    using assms by (simp add: no_empty_token_def)
  show ?thesis
  proof (cases res)
    case (Inl e)
    then show ?thesis
      using False v w1 by (simp add: handleValidateOtp_def no_empty_token_def emit_def)
  next
    case (Inr d)
    show ?thesis
    proof (cases d)
      case JsonNull
      then show ?thesis
        using False v w1 Inr by (simp add: handleValidateOtp_def no_empty_token_def emit_def)
    next
      case (JsonBody response)
      show ?thesis
      proof (cases "and_then (success response) (token response)")
        case None
        then show ?thesis
          using False v w1 Inr JsonBody
          by (simp add: handleValidateOtp_def no_empty_token_def emit_def)
      next
        case (Some tok)
        obtain out a' w2 where si: "signIn tok a w1 = (out, a', w2)"
          by (cases "signIn tok a w1")
        have "no_empty_token w2"
          using signIn_keeps_no_empty_token [OF w1 and_then_Some [OF Some], of a]
          by (simp add: si)
        then show ?thesis
          using False v Inr JsonBody Some si
          by (cases out) (simp_all add: handleValidateOtp_def no_empty_token_def emit_def)
      qed
    qed
  qed
qed

lemma app_step_keeps_no_empty_token:
  "no_empty_token w \<Longrightarrow> no_empty_token (snd (app_step act (a, w)))"
proof (cases act)
  case (SubmitOtp net s)
  assume "no_empty_token w"
  then show ?thesis
    using handleValidateOtp_keeps_no_empty_token [of w net s a] by (simp add: SubmitOtp)
next
  case PressSignOut
  assume "no_empty_token w"
  then show ?thesis
    using signOut_keeps_no_empty_token [of w a] by (simp add: PressSignOut)
next
  case Restart
  assume "no_empty_token w"
  then show ?thesis
    using loadToken_keeps_storage [of initial_auth w]
    by (simp add: Restart no_empty_token_def)
next
  case (StorageFault f)
  assume "no_empty_token w"
  then show ?thesis
    by (simp add: StorageFault no_empty_token_def)
qed

lemma app_step_unpaired:
  "app_step (SubmitOtp net s) c = snd (handleValidateOtp net s (fst c) (snd c))"
  "app_step PressSignOut c = snd (signOut (fst c) (snd c))"
  "app_step Restart c = snd (loadToken initial_auth (snd c))"
  by (cases c, simp)+

lemma app_run_keeps_no_empty_token:
  "no_empty_token (snd c) \<Longrightarrow> no_empty_token (snd (app_run acts c))"
proof (induction acts arbitrary: c)
  case Nil
  then show ?case by simp
next
  case (Cons act acts)
  obtain a w where c: "c = (a, w)" by (cases c)
  have "no_empty_token (snd (app_step act (a, w)))"
    using Cons.prems app_step_keeps_no_empty_token [of w act a] by (simp add: c)
  then show ?case
    using Cons.IH [of "app_step act (a, w)"] by (simp add: c)
qed

lemma upload_major_change_resets_minor:
  "minorHead (upload_onMajorHeadChange itemValue s) = []"
  by (simp add: upload_onMajorHeadChange_def)

lemma trim_strips_no_break_space:
  "trim ([CHR 0xC2, CHR 0xA0] @ ''invoice'' @ [CHR 0xE2, CHR 0x80, CHR 0xA8, CHR 0x0A])
     = ''invoice''"
  by code_simp

lemma trim_keeps_inner_space: "trim '' tax  2024 '' = ''tax  2024''"
  by code_simp

section \<open>The claims\<close>

text \<open>
  C1. For each of the three document API operations (\<open>uploadDocument\<close>,
  \<open>fetchDocumentTags\<close>, \<open>searchDocuments\<close>): when the store holds no session token, the
  call throws the fault \<open>Authentication token not found. Please log in again.\<close> and the
  requests sent over the network are those sent before the call, whatever the network
  would have answered.
\<close>

theorem missing_session_fails_before_network:
  assumes "getItem (storage w) ''userToken'' = Inr None"
  shows "fst (uploadDocument net1 fileUri fileName fileType dd w)
           = Inl (Error ''Authentication token not found. Please log in again.'')
       \<and> requests (trace (snd (uploadDocument net1 fileUri fileName fileType dd w)))
           = requests (trace w)
       \<and> fst (fetchDocumentTags net2 term w)
           = Inl (Error ''Authentication token not found. Please log in again.'')
       \<and> requests (trace (snd (fetchDocumentTags net2 term w))) = requests (trace w)
       \<and> fst (searchDocuments net3 criteria w)
           = Inl (Error ''Authentication token not found. Please log in again.'')
       \<and> requests (trace (snd (searchDocuments net3 criteria w))) = requests (trace w)"
  using getUserToken_missing [OF assms]
  by (simp add: uploadDocument_def fetchDocumentTags_def searchDocuments_def emit_def
      requests_append)

theorem missing_session_fails_before_network_witness:
  "getItem (storage nothing_stored) ''userToken'' = Inr None
   \<and> fst (uploadDocument accepted_net (uri sample_file) (name sample_file) (type sample_file)
          (documentData sample_form) nothing_stored)
       = Inl (Error ''Authentication token not found. Please log in again.'')
   \<and> requests (trace (snd (uploadDocument accepted_net (uri sample_file) (name sample_file)
          (type sample_file) (documentData sample_form) nothing_stored))) = []
   \<and> fst (fetchDocumentTags accepted_net [] nothing_stored)
       = Inl (Error ''Authentication token not found. Please log in again.'')
   \<and> requests (trace (snd (fetchDocumentTags accepted_net [] nothing_stored))) = []
   \<and> fst (searchDocuments accepted_net sample_criteria nothing_stored)
       = Inl (Error ''Authentication token not found. Please log in again.'')
   \<and> requests (trace (snd (searchDocuments accepted_net sample_criteria nothing_stored))) = []"
proof -
  have none: "getItem (storage nothing_stored) ''userToken'' = Inr None"
    by (simp add: nothing_stored_def getItem_def)
  have "requests (trace nothing_stored) = []"
    by (simp add: nothing_stored_def)
  then show ?thesis
    using none
      missing_session_fails_before_network [OF none, of accepted_net "uri sample_file"
        "name sample_file" "type sample_file" "documentData sample_form" accepted_net "[]"
        accepted_net sample_criteria]
    by simp
qed

text \<open>
  C2. The claim is that on every screen with category selection a change of the major
  head clears the minor head. The upload screen's picker does so
  (\<open>upload_major_change_resets_minor\<close>). The search screen's picker is wired to
  \<open>setMajorHead\<close> alone: with Personal / Tom selected, a change of the major head to
  Professional leaves the minor head Tom.
\<close>

theorem search_major_change_keeps_minor:
  "majorHead (search_onMajorHeadChange ''Professional'' search_personal_tom) = ''Professional''
   \<and> minorHead (search_onMajorHeadChange ''Professional'' search_personal_tom) = ''Tom''"
  by (simp add: search_onMajorHeadChange_def search_personal_tom_def)

text \<open>
  C3. While the storage operations succeed: for every token \<open>t\<close>, after \<open>signIn t\<close> the
  store holds \<open>t\<close> and a freshly mounted provider loads \<open>t\<close>; after \<open>signOut\<close> the store
  holds nothing and a freshly mounted provider loads no token.
\<close>

theorem session_round_trip:
  assumes "fault (storage w) = None"
  shows "getItem (storage (world_of (signIn t a w))) ''userToken'' = Inr (Some t)
       \<and> userToken (auth_of (loadToken initial_auth (world_of (signIn t a w)))) = Some t
       \<and> getItem (storage (world_of (signOut a w))) ''userToken'' = Inr None
       \<and> userToken (auth_of (loadToken initial_auth (world_of (signOut a w)))) = None"
  using assms
  by (simp add: signIn_def signOut_def loadToken_def loadToken_settled_def setItem_def
      removeItem_def getItem_def auth_of_def world_of_def initial_auth_def)

theorem session_round_trip_witness:
  "fault (storage nothing_stored) = None
   \<and> userToken (auth_of (loadToken initial_auth
        (world_of (signIn ''abc'' signed_out nothing_stored)))) = Some ''abc''
   \<and> fault (storage stored_abc) = None
   \<and> userToken (auth_of (loadToken initial_auth
        (world_of (signOut signed_in_abc stored_abc)))) = None"
proof -
  have f1: "fault (storage nothing_stored) = None"
    by (simp add: nothing_stored_def)
  have f2: "fault (storage stored_abc) = None"
    by (simp add: stored_abc_def)
  show ?thesis
    using f1 f2 session_round_trip [OF f1, of "''abc''" signed_out]
      session_round_trip [OF f2, of "''abc''" signed_in_abc]
    by simp
qed

text \<open>
  C4. The claim is that each of the three calls, on a status that is not 2xx, throws
  the server's message when there is one and \<open>API error: <status>\<close> otherwise. The
  calls decode the body before they look at the status. For a reply of status 502 whose
  body is not JSON there is no message of the server, and each call throws the
  decoder's fault, not \<open>API error: 502\<close>. For a reply of status 500 whose body is the
  JSON value \<open>null\<close>, reading \<open>data.message\<close> throws a TypeError in place of
  \<open>API error: 500\<close>.
\<close>

theorem undecodable_error_body_fault:
  "\<not> ok bad_gateway
   \<and> fst (uploadDocument bad_gateway_net (uri sample_file) (name sample_file)
          (type sample_file) (documentData sample_form) stored_abc)
       = Inl (Error ''JSON Parse error'')
   \<and> fst (fetchDocumentTags bad_gateway_net [] stored_abc) = Inl (Error ''JSON Parse error'')
   \<and> fst (searchDocuments bad_gateway_net sample_criteria stored_abc)
       = Inl (Error ''JSON Parse error'')
   \<and> ''API error: '' @ decimal (status bad_gateway) = ''API error: 502''
   \<and> \<not> ok null_error
   \<and> fst (uploadDocument null_error_net (uri sample_file) (name sample_file)
          (type sample_file) (documentData sample_form) stored_abc)
       = Inl (null_read ''message'')
   \<and> fst (fetchDocumentTags null_error_net [] stored_abc) = Inl (null_read ''message'')
   \<and> fst (searchDocuments null_error_net sample_criteria stored_abc)
       = Inl (null_read ''message'')"
proof -
  have "decimal (status bad_gateway) = ''502''"
    unfolding bad_gateway_def by code_simp
  then show ?thesis
    by (simp add: bad_gateway_def bad_gateway_net_def null_error_def null_error_net_def ok_def
        uploadDocument_def fetchDocumentTags_def searchDocuments_def getUserToken_def
        getItem_def stored_abc_def read_response_def Let_def)
qed

text \<open>
  C5, as amended. When the form passes its checks and the upload request is answered
  by a response, of any status, whose body has \<open>success\<close> false: the six form fields
  (document date, major head, minor head, remarks, tags, selected file) are left as
  they were and one alert is shown. It carries the server's message when that message
  is present and not empty. Otherwise it carries a fixed text:
  \<open>Failed to upload document.\<close> when the status is 2xx (alert \<open>Upload Error\<close>), and
  \<open>API error: <status>\<close> when it is not (alert \<open>Upload Failed\<close>). The form fields change
  only when the upload call returned a body whose \<open>success\<close> is true.
\<close>

theorem upload_rejection_frame:
  "(selectedFile s = Some file \<and> majorHead s \<noteq> [] \<and> minorHead s \<noteq> [] \<and> tags s \<noteq> []
      \<and> getUserToken w = Inr tok
      \<and> net (upload_request tok (uri file) (name file) (type file) (documentData s)) = Inr r
      \<and> json r = Inr (JsonBody response)
      \<and> \<not> success response
      \<longrightarrow> form_fields (fst (handleSubmit net now s w)) = form_fields s
        \<and> (ok r \<longrightarrow>
             alerts (trace (snd (handleSubmit net now s w)))
               = alerts (trace w)
                 @ [(''Upload Error'',
                     case message response of
                       None \<Rightarrow> ''Failed to upload document.''
                     | Some m \<Rightarrow> if m = [] then ''Failed to upload document.'' else m)])
        \<and> (\<not> ok r \<longrightarrow>
             alerts (trace (snd (handleSubmit net now s w)))
               = alerts (trace w)
                 @ [(''Upload Failed'',
                     case message response of
                       None \<Rightarrow> ''API error: '' @ decimal (status r)
                     | Some m \<Rightarrow> if m = [] then ''API error: '' @ decimal (status r) else m)]))
   \<and> (form_fields (fst (handleSubmit net now s w)) \<noteq> form_fields s
      \<longrightarrow> (\<exists>file response.
            selectedFile s = Some file
            \<and> fst (uploadDocument net (uri file) (name file) (type file) (documentData s) w)
                = Inr (JsonBody response)
            \<and> success response))"
proof -
  have rejected: "form_fields (fst (handleSubmit net now s w)) = form_fields s
        \<and> (ok r \<longrightarrow>
             alerts (trace (snd (handleSubmit net now s w)))
               = alerts (trace w)
                 @ [(''Upload Error'',
                     case message response of
                       None \<Rightarrow> ''Failed to upload document.''
                     | Some m \<Rightarrow> if m = [] then ''Failed to upload document.'' else m)])
        \<and> (\<not> ok r \<longrightarrow>
             alerts (trace (snd (handleSubmit net now s w)))
               = alerts (trace w)
                 @ [(''Upload Failed'',
                     case message response of
                       None \<Rightarrow> ''API error: '' @ decimal (status r)
                     | Some m \<Rightarrow> if m = [] then ''API error: '' @ decimal (status r) else m)])"
    if h: "selectedFile s = Some file" "majorHead s \<noteq> []" "minorHead s \<noteq> []" "tags s \<noteq> []"
      "getUserToken w = Inr tok"
      "net (upload_request tok (uri file) (name file) (type file) (documentData s)) = Inr r"
      "json r = Inr (JsonBody response)" "\<not> success response"
  proof (cases "ok r")
    case True
    have "uploadDocument net (uri file) (name file) (type file) (documentData s) w
        = (Inr (JsonBody response),
           emit (Fetch (upload_request tok (uri file) (name file) (type file)
             (documentData s))) w)"
      using uploadDocument_sent [of w tok net "uri file" "name file" "type file" "documentData s" r]
        h(5) h(6) h(7) True
      by (simp add: read_response_def)
    then show ?thesis
      using h True
      by (simp add: handleSubmit_def form_fields_def emit_def alerts_append or_default_def)
  next
    case False
    have "uploadDocument net (uri file) (name file) (type file) (documentData s) w
        = (Inl (Error (or_default (message response) (''API error: '' @ decimal (status r)))),
           emit (ConsoleError ''Error uploading document:''
               (Error (or_default (message response) (''API error: '' @ decimal (status r)))))
             (emit (Fetch (upload_request tok (uri file) (name file) (type file)
               (documentData s))) w))"
      using uploadDocument_sent [of w tok net "uri file" "name file" "type file" "documentData s" r]
        h(5) h(6) h(7) False
      by (simp add: read_response_def)
    then show ?thesis
      using h False
      by (simp add: handleSubmit_def form_fields_def emit_def alerts_append or_default_def
          split: option.split)
  qed
  have changed: "\<exists>file response.
            selectedFile s = Some file
            \<and> fst (uploadDocument net (uri file) (name file) (type file) (documentData s) w)
                = Inr (JsonBody response)
            \<and> success response"
    if "form_fields (fst (handleSubmit net now s w)) \<noteq> form_fields s"
    using that
    by (auto simp: handleSubmit_def form_fields_def
        split: option.splits if_splits prod.splits sum.splits decoded.splits)
  show ?thesis using rejected changed by blast
qed

theorem upload_rejection_frame_witness:
  "selectedFile sample_form = Some sample_file
   \<and> majorHead sample_form \<noteq> [] \<and> minorHead sample_form \<noteq> [] \<and> tags sample_form \<noteq> []
   \<and> getUserToken stored_abc = Inr ''abc''
   \<and> \<not> success rejected_body \<and> \<not> success unmessaged_body \<and> \<not> ok server_error
   \<and> form_fields (fst (handleSubmit rejected_net 1 sample_form stored_abc))
       = form_fields sample_form
   \<and> alerts (trace (snd (handleSubmit rejected_net 1 sample_form stored_abc)))
       = [(''Upload Error'', ''Duplicate document'')]
   \<and> form_fields (fst (handleSubmit server_error_net 1 sample_form stored_abc))
       = form_fields sample_form
   \<and> alerts (trace (snd (handleSubmit server_error_net 1 sample_form stored_abc)))
       = [(''Upload Failed'', ''API error: 500'')]
   \<and> form_fields (fst (handleSubmit accepted_net 1 sample_form stored_abc))
       = (1, [], [], [], [], None)"
proof -
  have f: "selectedFile sample_form = Some sample_file
      \<and> majorHead sample_form \<noteq> [] \<and> minorHead sample_form \<noteq> [] \<and> tags sample_form \<noteq> []"
    by (simp add: sample_form_def)
  have b: "\<not> success rejected_body \<and> message rejected_body = Some ''Duplicate document''
      \<and> \<not> success unmessaged_body \<and> message unmessaged_body = None"
    by (simp add: rejected_body_def unmessaged_body_def)
  have r: "ok \<lparr>status = 200, json = Inr (JsonBody rejected_body)\<rparr>
      \<and> \<not> ok server_error \<and> json server_error = Inr (JsonBody unmessaged_body)"
    by (simp add: ok_def server_error_def)
  have d: "''API error: '' @ decimal (status server_error) = ''API error: 500''"
    unfolding server_error_def by code_simp
  have t: "alerts (trace stored_abc) = []"
    by (simp add: stored_abc_def)
  have acc: "form_fields (fst (handleSubmit accepted_net 1 sample_form stored_abc))
       = (1, [], [], [], [], None)"
    by (simp add: handleSubmit_def uploadDocument_def getUserToken_def getItem_def
        stored_abc_def sample_form_def accepted_net_def accepted_body_def read_response_def
        ok_def Let_def form_fields_def)
  show ?thesis
    using upload_rejection_frame [of sample_form sample_file stored_abc "''abc''"
        rejected_net "\<lparr>status = 200, json = Inr (JsonBody rejected_body)\<rparr>" rejected_body 1]
      upload_rejection_frame [of sample_form sample_file stored_abc "''abc''"
        server_error_net server_error unmessaged_body 1]
      getUserToken_stored_abc f b r d t acc
    by (simp add: rejected_net_def server_error_net_def)
qed

text \<open>
  The claim C5 as it is written fails for a body \<open>{success: false, message: ""}\<close>: the
  alert carries the fallback text, not the server's (empty) message.
\<close>

theorem empty_server_message_counterexample:
  "fst (uploadDocument empty_message_net (uri sample_file) (name sample_file)
          (type sample_file) (documentData sample_form) stored_abc)
     = Inr (JsonBody empty_message_body)
   \<and> \<not> success empty_message_body
   \<and> message empty_message_body = Some []
   \<and> alerts (trace (snd (handleSubmit empty_message_net 1 sample_form stored_abc)))
       = [(''Upload Error'', ''Failed to upload document.'')]"
  by (simp add: handleSubmit_def uploadDocument_def getUserToken_def getItem_def
      stored_abc_def sample_form_def empty_message_net_def empty_message_body_def
      read_response_def ok_def Let_def emit_def or_default_def)

text \<open>
  C6. On the upload screen and on the search screen, adding a tag that the selection
  already holds leaves the selection as it was, both through \<open>handleAddTag\<close> (the tag
  is the trimmed input) and through a suggested-tag chip.
\<close>

theorem add_present_tag_unchanged:
  fixes u :: upload_state and v :: search_state
  shows "(trim (newTag u) \<in> set (tags u) \<longrightarrow> tags (handleAddTag u) = tags u)
       \<and> (t \<in> set (tags u) \<longrightarrow> tags (pressSuggestedTag t u) = tags u)
       \<and> (trim (newTag v) \<in> set (tags v) \<longrightarrow> tags (handleAddTag v) = tags v)
       \<and> (t' \<in> set (tags v) \<longrightarrow> tags (pressSuggestedTag t' v) = tags v)"
  by (simp add: handleAddTag_def pressSuggestedTag_def Let_def)

theorem add_present_tag_unchanged_witness:
  "trim (newTag sample_form) = ''invoice'' \<and> ''invoice'' \<in> set (tags sample_form)
   \<and> tags (handleAddTag sample_form) = [''invoice'']
   \<and> tags (pressSuggestedTag ''invoice'' sample_form) = [''invoice'']
   \<and> trim (newTag search_personal_tom) = ''invoice''
   \<and> ''invoice'' \<in> set (tags search_personal_tom)
   \<and> tags (handleAddTag search_personal_tom) = [''invoice'']
   \<and> tags (pressSuggestedTag ''invoice'' search_personal_tom) = [''invoice'']"
proof -
  have "trim '' invoice '' = ''invoice''" and "trim ''invoice'' = ''invoice''"
    by code_simp+
  then have u: "trim (newTag sample_form) = ''invoice'' \<and> tags sample_form = [''invoice'']"
    and v: "trim (newTag search_personal_tom) = ''invoice''
      \<and> tags search_personal_tom = [''invoice'']"
    by (simp_all add: sample_form_def search_personal_tom_def)
  show ?thesis
    using add_present_tag_unchanged [of sample_form "''invoice''" search_personal_tom
        "''invoice''"] u v
    by simp
qed

text \<open>
  C7. Let the app start from an installation that has stored no token and run any of
  its actions (submissions of the login form against any network, sign-outs, restarts,
  the storage starting or ceasing to fail), and let a provider then be mounted on the
  store so reached. The shell is in the state Loading (it renders the loading indicator
  alone) exactly while the initial load has not resolved. When the load resolves, the
  shell is Authenticated (the stack of Home, Upload, Search and Preview) if a token was
  loaded, and Unauthenticated (the stack of Login alone) if none was, the store holding
  none or the read having failed.
\<close>

theorem shell_state_after_load:
  assumes "items (storage w0) ''userToken'' = None"
    and "w = snd (app_run acts (a0, w0))"
  shows "(AppContent (auth_of (auth_run evs (mount w))) = Loading
            \<longleftrightarrow> LoadResolved \<notin> set evs)
       \<and> (getItem (storage w) ''userToken'' = Inr (Some t)
            \<longrightarrow> userToken (auth_of (auth_run [LoadResolved] (mount w))) = Some t
              \<and> AppContent (auth_of (auth_run [LoadResolved] (mount w))) = Authenticated)
       \<and> (getItem (storage w) ''userToken'' = Inr None
            \<or> getItem (storage w) ''userToken'' = Inl e
            \<longrightarrow> userToken (auth_of (auth_run [LoadResolved] (mount w))) = None
              \<and> AppContent (auth_of (auth_run [LoadResolved] (mount w))) = Unauthenticated)"
proof -
  have "no_empty_token (snd (a0, w0))"
    using assms(1) by (simp add: no_empty_token_def)
  then have inv: "items (storage w) ''userToken'' \<noteq> Some []"
    using app_run_keeps_no_empty_token [of "(a0, w0)" acts] assms(2)
    by (simp add: no_empty_token_def)
  have "AppContent (auth_of (auth_run evs (mount w))) = Loading
      \<longleftrightarrow> LoadResolved \<notin> set evs"
    using auth_run_loading [of initial_auth "Some (getItem (storage w) ''userToken'')" evs w]
    by (simp add: AppContent_Loading mount_def auth_of_def initial_auth_def)
  moreover have "getItem (storage w) ''userToken'' = Inr (Some t)
      \<longrightarrow> userToken (auth_of (auth_run [LoadResolved] (mount w))) = Some t
        \<and> AppContent (auth_of (auth_run [LoadResolved] (mount w))) = Authenticated"
    using inv
    by (auto simp: mount_def loadToken_settled_def auth_of_def AppContent_def
        Authenticated_def truthy_def getItem_def split: option.splits)
  moreover have "getItem (storage w) ''userToken'' = Inr None
      \<or> getItem (storage w) ''userToken'' = Inl e
      \<longrightarrow> userToken (auth_of (auth_run [LoadResolved] (mount w))) = None
        \<and> AppContent (auth_of (auth_run [LoadResolved] (mount w))) = Unauthenticated"
    by (auto simp: mount_def loadToken_settled_def auth_of_def AppContent_def
        Unauthenticated_def truthy_def initial_auth_def)
  ultimately show ?thesis by blast
qed

theorem shell_state_after_load_witness:
  "items (storage nothing_stored) ''userToken'' = None
   \<and> getItem (storage (snd (app_run [SubmitOtp token_net sample_login, Restart]
        (signed_out, nothing_stored)))) ''userToken'' = Inr (Some ''abc'')
   \<and> AppContent (auth_of (auth_run []
        (mount (snd (app_run [SubmitOtp token_net sample_login, Restart]
          (signed_out, nothing_stored)))))) = Loading
   \<and> AppContent (auth_of (auth_run [LoadResolved]
        (mount (snd (app_run [SubmitOtp token_net sample_login, Restart]
          (signed_out, nothing_stored)))))) = Authenticated
   \<and> getItem (storage (snd (app_run [SubmitOtp token_net sample_login, PressSignOut]
        (signed_out, nothing_stored)))) ''userToken'' = Inr None
   \<and> AppContent (auth_of (auth_run [LoadResolved]
        (mount (snd (app_run [SubmitOtp token_net sample_login, PressSignOut]
          (signed_out, nothing_stored)))))) = Unauthenticated"
proof -
  have none: "items (storage nothing_stored) ''userToken'' = None"
    by (simp add: nothing_stored_def)
  have s1: "storage (world_of (handleValidateOtp token_net sample_login signed_out
        nothing_stored))
      = \<lparr>items = [''userToken'' \<mapsto> ''abc''], fault = None\<rparr>"
    by (simp add: handleValidateOtp_def validateOTP_def token_net_def token_body_def
        sample_login_def nothing_stored_def and_then_def truthy_def signIn_def setItem_def
        emit_def Let_def world_of_def)
  have abc: "getItem (storage (snd (app_run [SubmitOtp token_net sample_login, Restart]
      (signed_out, nothing_stored)))) ''userToken'' = Inr (Some ''abc'')"
    using s1 loadToken_keeps_storage [of initial_auth
        "snd (snd (handleValidateOtp token_net sample_login signed_out nothing_stored))"]
    by (simp add: getItem_def world_of_def app_step_unpaired)
  have out: "getItem (storage (snd (app_run [SubmitOtp token_net sample_login, PressSignOut]
      (signed_out, nothing_stored)))) ''userToken'' = Inr None"
    using s1
    by (simp add: getItem_def signOut_def removeItem_def split_beta world_of_def
        app_step_unpaired)
  show ?thesis
    using none abc out
      shell_state_after_load [OF none refl, of "[]"
        "[SubmitOtp token_net sample_login, Restart]" signed_out "''abc''" "Error []"]
      shell_state_after_load [OF none refl, of "[LoadResolved]"
        "[SubmitOtp token_net sample_login, Restart]" signed_out "''abc''" "Error []"]
      shell_state_after_load [OF none refl, of "[LoadResolved]"
        "[SubmitOtp token_net sample_login, PressSignOut]" signed_out "''abc''" "Error []"]
    by simp
qed

text \<open>
  C8. When the storage operation fails: the initial load resolves and leaves the
  provider in the state a load from a store without a token leaves it in (no token, not
  loading); \<open>signIn\<close> and \<open>signOut\<close> resolve and leave the provider's state as it was. None
  of the three rejects.
\<close>

theorem storage_failure_is_swallowed:
  assumes "fault (storage w) = Some e"
    and "getItem (storage w') ''userToken'' = Inr None"
  shows "fst (loadToken initial_auth w) = Inr ()
       \<and> auth_of (loadToken initial_auth w) = auth_of (loadToken initial_auth w')
       \<and> auth_of (loadToken initial_auth w) = \<lparr>userToken = None, isLoading = False\<rparr>
       \<and> fst (signIn t a w) = Inr () \<and> auth_of (signIn t a w) = a
       \<and> fst (signOut a w) = Inr () \<and> auth_of (signOut a w) = a"
  using assms
  by (simp add: signIn_def signOut_def loadToken_def loadToken_settled_def setItem_def
      removeItem_def getItem_def auth_of_def initial_auth_def)

theorem storage_failure_is_swallowed_witness:
  "fault (storage storage_broken) = Some (Error ''disk failure'')
   \<and> getItem (storage nothing_stored) ''userToken'' = Inr None
   \<and> fst (loadToken initial_auth storage_broken) = Inr ()
   \<and> auth_of (loadToken initial_auth storage_broken)
       = auth_of (loadToken initial_auth nothing_stored)
   \<and> fst (signIn ''xyz'' signed_out storage_broken) = Inr ()
   \<and> auth_of (signIn ''xyz'' signed_out storage_broken) = signed_out
   \<and> fst (signOut signed_in_abc storage_broken) = Inr ()
   \<and> auth_of (signOut signed_in_abc storage_broken) = signed_in_abc"
proof -
  have f: "fault (storage storage_broken) = Some (Error ''disk failure'')"
    by (simp add: storage_broken_def)
  have none: "getItem (storage nothing_stored) ''userToken'' = Inr None"
    by (simp add: nothing_stored_def getItem_def)
  show ?thesis
    using f none storage_failure_is_swallowed [OF f none, of "''xyz''" signed_out]
      storage_failure_is_swallowed [OF f none, of "''xyz''" signed_in_abc]
    by simp
qed

text \<open>
  C9. When the login screen has sent the validation request and the response decodes to
  a body whose \<open>success\<close> is true and which carries no token: the provider's state is
  left as it was (so the shell renders what it rendered), the store is left as it was,
  and one alert \<open>Error\<close> is shown, with the server's message or, without one, with
  \<open>Invalid OTP. Please try again.\<close>.
\<close>

theorem otp_success_without_token:
  assumes "mobileNumber s \<noteq> []" and "otp s \<noteq> []"
    and "fst (validateOTP net (mobileNumber s) (otp s) w) = Inr (JsonBody response)"
    and "success response" and "token response = None"
  shows "auth_of (handleValidateOtp net s a w) = a
       \<and> AppContent (auth_of (handleValidateOtp net s a w)) = AppContent a
       \<and> storage (world_of (handleValidateOtp net s a w)) = storage w
       \<and> alerts (trace (world_of (handleValidateOtp net s a w)))
           = alerts (trace w)
             @ [(''Error'', or_default (message response) ''Invalid OTP. Please try again.'')]"
proof -
  obtain w1 where v: "validateOTP net (mobileNumber s) (otp s) w = (Inr (JsonBody response), w1)"
    using assms(3) by (cases "validateOTP net (mobileNumber s) (otp s) w") simp
  have w1: "storage w1 = storage w \<and> alerts (trace w1) = alerts (trace w)"
    using validateOTP_world [of net "mobileNumber s" "otp s" w] by (simp add: v)
  show ?thesis
    using assms v w1
    by (simp add: handleValidateOtp_def and_then_def truthy_def auth_of_def world_of_def
        emit_def alerts_append)
qed

theorem otp_success_without_token_witness:
  "mobileNumber sample_login \<noteq> [] \<and> otp sample_login \<noteq> []
   \<and> fst (validateOTP accepted_net (mobileNumber sample_login) (otp sample_login)
          nothing_stored) = Inr (JsonBody accepted_body)
   \<and> success accepted_body \<and> token accepted_body = None
   \<and> auth_of (handleValidateOtp accepted_net sample_login signed_out nothing_stored)
       = signed_out
   \<and> AppContent (auth_of (handleValidateOtp accepted_net sample_login signed_out
        nothing_stored)) = Unauthenticated
   \<and> storage (world_of (handleValidateOtp accepted_net sample_login signed_out
        nothing_stored)) = storage nothing_stored
   \<and> alerts (trace (world_of (handleValidateOtp accepted_net sample_login signed_out
        nothing_stored))) = [(''Error'', ''Invalid OTP. Please try again.'')]"
proof -
  have l: "mobileNumber sample_login \<noteq> [] \<and> otp sample_login \<noteq> []"
    by (simp add: sample_login_def)
  have v: "fst (validateOTP accepted_net (mobileNumber sample_login) (otp sample_login)
      nothing_stored) = Inr (JsonBody accepted_body)"
    by (simp add: validateOTP_def accepted_net_def Let_def)
  have b: "success accepted_body \<and> token accepted_body = None
      \<and> message accepted_body = None"
    by (simp add: accepted_body_def)
  have u: "AppContent signed_out = Unauthenticated"
    by (simp add: AppContent_def signed_out_def Unauthenticated_def truthy_def)
  have t: "alerts (trace nothing_stored) = []"
    by (simp add: nothing_stored_def)
  show ?thesis
    using otp_success_without_token [of sample_login accepted_net nothing_stored
        accepted_body signed_out] l v b u t
    by (simp add: or_default_def)
qed

text \<open>
  C10. After the initial load has resolved and while the storage succeeds, \<open>signIn\<close>
  with the empty string leaves the shell Unauthenticated, although the empty string is
  now stored (the store reads back what was set), a freshly mounted provider loads it,
  and the shell of that provider is Unauthenticated too; \<open>signIn\<close> with any other
  string makes the shell Authenticated, and so does a fresh load after it. The shell
  tests the truthiness of the token, not the presence of a stored value.
\<close>

theorem empty_token_sign_in:
  assumes "fault (storage w) = None" and "\<not> isLoading a"
  shows "AppContent (auth_of (signIn [] a w)) = Unauthenticated
       \<and> getItem (storage (world_of (signIn [] a w))) ''userToken'' = Inr (Some [])
       \<and> userToken (auth_of (loadToken initial_auth (world_of (signIn [] a w)))) = Some []
       \<and> AppContent (auth_of (loadToken initial_auth (world_of (signIn [] a w))))
           = Unauthenticated
       \<and> (t \<noteq> [] \<longrightarrow>
            AppContent (auth_of (signIn t a w)) = Authenticated
            \<and> getItem (storage (world_of (signIn t a w))) ''userToken'' = Inr (Some t)
            \<and> AppContent (auth_of (loadToken initial_auth (world_of (signIn t a w))))
                = Authenticated)"
  using assms
  by (simp add: signIn_def loadToken_def loadToken_settled_def setItem_def getItem_def
      auth_of_def world_of_def initial_auth_def AppContent_def Unauthenticated_def
      Authenticated_def truthy_def)

theorem empty_token_sign_in_witness:
  "fault (storage nothing_stored) = None \<and> \<not> isLoading signed_out
   \<and> AppContent (auth_of (signIn [] signed_out nothing_stored)) = Unauthenticated
   \<and> getItem (storage (world_of (signIn [] signed_out nothing_stored))) ''userToken''
       = Inr (Some [])
   \<and> AppContent (auth_of (loadToken initial_auth
        (world_of (signIn [] signed_out nothing_stored)))) = Unauthenticated
   \<and> AppContent (auth_of (signIn ''abc'' signed_out nothing_stored)) = Authenticated
   \<and> AppContent (auth_of (loadToken initial_auth
        (world_of (signIn ''abc'' signed_out nothing_stored)))) = Authenticated"
proof -
  have f: "fault (storage nothing_stored) = None"
    by (simp add: nothing_stored_def)
  have l: "\<not> isLoading signed_out"
    by (simp add: signed_out_def)
  show ?thesis
    using f l empty_token_sign_in [OF f l, of "''abc''"] by simp
qed

end
